theory Spec2Isabelle
  imports Main
begin

section \<open>The favourites controller of the Pokedex backend\<close>

text \<open>
  This theory embeds \<^verbatim>\<open>src/backend/controllers/favouriteController.js\<close>: the three
  request handlers \<^verbatim>\<open>createFavourite\<close>, \<^verbatim>\<open>readFavourite\<close> and \<^verbatim>\<open>deleteFavourite\<close>.
  Each handler is the \<^verbatim>\<open>async (req, res, next)\<close> function handed to \<^verbatim>\<open>catchAsync\<close>.
  It is modelled as a function from the request and the database to what the
  function did (a response, a call of \<^verbatim>\<open>next\<close> with an \<^verbatim>\<open>AppError\<close>, or a rejected
  promise) and the database it leaves behind.
\<close>

subsection \<open>Rendering numbers in template literals\<close>

text \<open>
  The messages interpolate identifiers with \<^verbatim>\<open>${...}\<close>, which renders a number in decimal.
  The rendering below is the exact decimal numeral, which is what JavaScript prints for
  integers below \<open>2^53\<close>, the range of row identifiers.
\<close>

fun show_nat :: "nat \<Rightarrow> string" where
  "show_nat n =
     (if n < 10 then [''0123456789'' ! n]
      else show_nat (n div 10) @ [''0123456789'' ! (n mod 10)])"

declare show_nat.simps [simp del]

definition toString :: "int \<Rightarrow> string" where
  "toString i = (if i < 0 then CHR ''-'' # show_nat (nat (- i)) else show_nat (nat i))"

subsection \<open>Persistence model\<close>

text \<open>
  Modelled from the spec: the Sequelize models \<^verbatim>\<open>db/models/user\<close>,
  \<^verbatim>\<open>db/models/pokemon\<close> and \<^verbatim>\<open>db/models/favourite\<close> are required by the controller
  but are not part of the sources at hand. The spec (sections 3 and 6) gives three related
  records: User (referenced by id only), Pokemon (a catalog entry, of which the controller
  reads \<^verbatim>\<open>id\<close> and \<^verbatim>\<open>name\<close>) and Favourite, the join row \<^verbatim>\<open>(user_id, pokemon_id)\<close> of the
  table \<^verbatim>\<open>favourites(user_id, pokemon_id)\<close>. Identifiers are the integers the store compares,
  so the path parameter \<^verbatim>\<open>pokemon_id\<close> is taken after the store's coercion to a number.
\<close>

record user =
  u_id :: int

record pokemon =
  p_id :: int
  p_name :: string

record favourite =
  user_id :: int
  pokemon_id :: int

text \<open>The tables are lists of rows, in storage order.\<close>

record db =
  users :: "user list"
  pokemons :: "pokemon list"
  favourites :: "favourite list"

text \<open>
  Modelled from the spec: \<^verbatim>\<open>Pokemon.findByPk(k)\<close> resolves to the catalog entry whose
  primary key is \<^verbatim>\<open>k\<close>, or to \<^verbatim>\<open>null\<close>.
\<close>

definition Pokemon_findByPk :: "db \<Rightarrow> int \<Rightarrow> pokemon option" where
  "Pokemon_findByPk d k = find (\<lambda>p. p_id p = k) (pokemons d)"

text \<open>
  Modelled from the spec: \<^verbatim>\<open>Favourite.findOne({ where: { user_id, pokemon_id } })\<close>
  resolves to a row of the favourites table for the pair, or to \<^verbatim>\<open>null\<close>.
\<close>

definition Favourite_findOne :: "db \<Rightarrow> int \<Rightarrow> int \<Rightarrow> favourite option" where
  "Favourite_findOne d u p = find (\<lambda>f. user_id f = u \<and> pokemon_id f = p) (favourites d)"

text \<open>What a rejected promise carries.\<close>

datatype js_error = TypeError | SequelizeUniqueConstraintError

text \<open>
  Modelled from the spec: \<^verbatim>\<open>Favourite.create({ user_id, pokemon_id })\<close> inserts one row
  and resolves to the created record. The table carries a composite uniqueness
  constraint on \<^verbatim>\<open>(user_id, pokemon_id)\<close> (spec, section 6), so an insert of a pair that is
  already stored is refused by the store and the promise rejects. The result is an
  option because the controller tests it for falsiness; the store never resolves to a
  falsy value.
\<close>

definition Favourite_create :: "favourite \<Rightarrow> db \<Rightarrow> js_error + (favourite option \<times> db)" where
  "Favourite_create row d =
     (if \<exists>f \<in> set (favourites d). user_id f = user_id row \<and> pokemon_id f = pokemon_id row
      then Inl SequelizeUniqueConstraintError
      else Inr (Some row, d\<lparr>favourites := favourites d @ [row]\<rparr>))"

text \<open>
  Modelled from the spec: \<^verbatim>\<open>favourite.destroy()\<close> deletes the row that the instance
  stands for.
\<close>

definition Favourite_destroy :: "favourite \<Rightarrow> db \<Rightarrow> db" where
  "Favourite_destroy row d = d\<lparr>favourites := remove1 row (favourites d)\<rparr>"

text \<open>
  The result of the user lookup of \<^verbatim>\<open>readFavourite\<close>: no attribute of the user itself
  (\<^verbatim>\<open>attributes: []\<close>), and under \<^verbatim>\<open>pokemons\<close> the catalog entries reached through the
  join table, each projected to \<^verbatim>\<open>id\<close> and \<^verbatim>\<open>name\<close>.
\<close>

record pokemon_view =
  v_id :: int
  v_name :: string

record user_view =
  view_pokemons :: "pokemon_view list"

definition project :: "pokemon \<Rightarrow> pokemon_view" where
  "project p = \<lparr>v_id = p_id p, v_name = p_name p\<rparr>"

text \<open>
  Modelled from the spec: the association \<^verbatim>\<open>pokemons\<close> of User, declared in the absent
  models, is "the set of catalog entries (projected to identifier + name) the user has
  favourited, via the join relation": the favourites rows of the user joined with the
  catalog on \<^verbatim>\<open>pokemon_id\<close>. The list has one entry per joined row; while the table has
  at most one row per pair, that is the list without repetition of the spec.
\<close>

definition joined_pokemons :: "db \<Rightarrow> int \<Rightarrow> pokemon_view list" where
  "joined_pokemons d u =
     List.map_filter (\<lambda>f. map_option project (Pokemon_findByPk d (pokemon_id f)))
       (filter (\<lambda>f. user_id f = u) (favourites d))"

text \<open>
  Modelled from the spec: \<^verbatim>\<open>User.findByPk(k, { attributes: [], include: [pokemons] })\<close>
  resolves to \<^verbatim>\<open>null\<close> when the users table has no row with primary key \<^verbatim>\<open>k\<close>, and to
  the user with its joined catalog entries otherwise.
\<close>

definition User_findByPk :: "db \<Rightarrow> int \<Rightarrow> user_view option" where
  "User_findByPk d k =
     (case find (\<lambda>u. u_id u = k) (users d) of
        None \<Rightarrow> None
      | Some u \<Rightarrow> Some \<lparr>view_pokemons = joined_pokemons d k\<rparr>)"

subsection \<open>Requests and what a handler does with them\<close>

text \<open>
  A request carries the authenticated user (\<^verbatim>\<open>req.user\<close>, of which only \<^verbatim>\<open>id\<close> is read)
  and the path parameter \<^verbatim>\<open>req.params.pokemon_id\<close>. The parameter arrives as a string; it
  is held here as the number the store compares, so the inputs of the model are the
  numeric identifiers in their canonical spelling, and the messages and the body of the
  201 response show that number where the source echoes the string.
\<close>

record auth_user =
  uid :: int

record request =
  req_user :: auth_user
  params_pokemon_id :: int

text \<open>\<^verbatim>\<open>new AppError(message, statusCode)\<close>.\<close>

datatype app_error = AppError (message: string) (statusCode: int)

text \<open>
  The three shapes of JSON body the handlers pass to \<^verbatim>\<open>res.json\<close>:
  \<^verbatim>\<open>{ status, data: favourite }\<close>, \<^verbatim>\<open>{ status, data: user }\<close> and \<^verbatim>\<open>{ status, message }\<close>.
\<close>

datatype json_body =
    FavouriteBody string favourite
  | UserBody string user_view
  | MessageBody string string

text \<open>
  A handler ends in one of three ways: \<^verbatim>\<open>res.status(c).json(b)\<close>, \<^verbatim>\<open>next(err)\<close> with an
  \<^verbatim>\<open>AppError\<close>, or an exception inside the async function, which rejects its promise.
  \<open>Res c b\<close> records the call with its two arguments; the response that leaves the
  server is \<open>response_of\<close> below.
\<close>

datatype outcome =
    Res int json_body
  | Next app_error
  | Rejected js_error

text \<open>
  The response on the wire: a status code and, when there is one, a body.
\<close>

record http_response =
  resp_status :: int
  resp_body :: "json_body option"

text \<open>
  \<^verbatim>\<open>res.status(c).json(b)\<close> of Express serialises \<^verbatim>\<open>b\<close> and hands it to \<^verbatim>\<open>res.send\<close>, which
  for the status codes 204 and 304 strips the content headers and sends an empty body.
  Express is a library outside the repository; this is its documented behaviour.
\<close>

definition res_json :: "int \<Rightarrow> json_body \<Rightarrow> http_response" where
  "res_json c b =
     \<lparr>resp_status = c, resp_body = (if c = 204 \<or> c = 304 then None else Some b)\<rparr>"

text \<open>
  The response a handler itself sends. After \<^verbatim>\<open>next(err)\<close> or a rejected promise the
  response is written by the error middleware, which is not part of the controller.
\<close>

fun response_of :: "outcome \<Rightarrow> http_response option" where
  "response_of (Res c b) = Some (res_json c b)"
| "response_of (Next err) = None"
| "response_of (Rejected err) = None"

subsection \<open>The handlers\<close>

definition createFavourite :: "request \<Rightarrow> db \<Rightarrow> outcome \<times> db" where
  "createFavourite req d =
     (let pid = params_pokemon_id req; user = req_user req in
      case Pokemon_findByPk d pid of
        None \<Rightarrow>
          (Next (AppError (''Pok'' @ [CHR 0xE9] @ ''mon with id '' @ toString pid @ '' not found'') 404), d)
      | Some pokemon \<Rightarrow>
          (case Favourite_findOne d (uid user) pid of
             Some existingFavourite \<Rightarrow>
               (Next (AppError (''User with id '' @ toString (uid user)
                        @ '' has already liked the Pok'' @ [CHR 0xE9] @ ''mon with id ''
                        @ toString pid) 400), d)
           | None \<Rightarrow>
               (case Favourite_create \<lparr>user_id = uid user, pokemon_id = pid\<rparr> d of
                  Inl err \<Rightarrow> (Rejected err, d)
                | Inr (None, d') \<Rightarrow>
                    (Next (AppError (''Failed to add Pok'' @ [CHR 0xE9] @ ''mon to favourites'') 400), d')
                | Inr (Some favourite, d') \<Rightarrow>
                    (Res 201 (FavouriteBody ''Success'' favourite), d'))))"

text \<open>
  \<^verbatim>\<open>user.pokemons\<close> on a \<^verbatim>\<open>null\<close> user throws a TypeError. An array is truthy, so of the
  test \<^verbatim>\<open>!user.pokemons || !user.pokemons.length\<close> the length decides.
\<close>

definition readFavourite :: "request \<Rightarrow> db \<Rightarrow> outcome \<times> db" where
  "readFavourite req d =
     (case User_findByPk d (uid (req_user req)) of
        None \<Rightarrow> (Rejected TypeError, d)
      | Some user \<Rightarrow>
          if length (view_pokemons user) = 0
          then (Next (AppError (''No favourite Pok'' @ [CHR 0xE9] @ ''mon found for user with id ''
                        @ toString (uid (req_user req))) 404), d)
          else (Res 200 (UserBody ''Success'' user), d))"

definition deleteFavourite :: "request \<Rightarrow> db \<Rightarrow> outcome \<times> db" where
  "deleteFavourite req d =
     (let pid = params_pokemon_id req; user = req_user req in
      case Favourite_findOne d (uid user) pid of
        None \<Rightarrow>
          (Next (AppError (''User '' @ toString (uid user) @ '' doesn'' @ [CHR 0x27]
                   @ ''t like pokemon with id '' @ toString pid) 404), d)
      | Some favourite \<Rightarrow>
          (Res 204 (MessageBody ''Success''
             (''User '' @ toString (uid user) @ '' no longer likes pokemon with id''
                @ toString pid)),
           Favourite_destroy favourite d))"

subsection \<open>The invariant of the favourites table\<close>

text \<open>At most one favourites row for any pair \<^verbatim>\<open>(user_id, pokemon_id)\<close>.\<close>

definition pair_of :: "favourite \<Rightarrow> int \<times> int" where
  "pair_of f = (user_id f, pokemon_id f)"

definition unique_pairs :: "favourite list \<Rightarrow> bool" where
  "unique_pairs favs = distinct (map pair_of favs)"

text \<open>The rows stored for a pair.\<close>

definition rows_for :: "int \<Rightarrow> int \<Rightarrow> favourite list \<Rightarrow> favourite list" where
  "rows_for u p favs = filter (\<lambda>f. user_id f = u \<and> pokemon_id f = p) favs"

text \<open>Every favourites row points to a catalog entry.\<close>

definition refs_ok :: "db \<Rightarrow> bool" where
  "refs_ok d = list_all (\<lambda>f. Pokemon_findByPk d (pokemon_id f) \<noteq> None) (favourites d)"

text \<open>The users table has a row for the identifier.\<close>

definition user_exists :: "db \<Rightarrow> int \<Rightarrow> bool" where
  "user_exists d k = (find (\<lambda>u. u_id u = k) (users d) \<noteq> None)"

subsection \<open>Sequences of add and remove requests\<close>

datatype operation = Add request | Remove request

fun apply_operation :: "operation \<Rightarrow> db \<Rightarrow> db" where
  "apply_operation (Add req) d = snd (createFavourite req d)"
| "apply_operation (Remove req) d = snd (deleteFavourite req d)"

text \<open>The databases after each operation of a sequence, in order.\<close>

fun states_after :: "operation list \<Rightarrow> db \<Rightarrow> db list" where
  "states_after [] d = []"
| "states_after (x # xs) d = apply_operation x d # states_after xs (apply_operation x d)"

subsection \<open>Two add requests in flight at once\<close>

text \<open>
  \<^verbatim>\<open>createFavourite\<close> awaits the store three times: \<^verbatim>\<open>Pokemon.findByPk\<close>,
  \<^verbatim>\<open>Favourite.findOne\<close> and \<^verbatim>\<open>Favourite.create\<close>. Each call is one atomic step on the
  database; between two awaits of one request the event loop may run steps of another.
  A request in flight is at one of its three awaits or has finished with an outcome.
\<close>

datatype create_progress =
    At_findByPk request
  | At_findOne request
  | At_create request
  | Finished outcome

text \<open>One step: the pending store call and the code up to the next await.\<close>

fun create_step :: "create_progress \<Rightarrow> db \<Rightarrow> create_progress \<times> db" where
  "create_step (At_findByPk req) d =
     (case Pokemon_findByPk d (params_pokemon_id req) of
        None \<Rightarrow>
          (Finished (Next (AppError (''Pok'' @ [CHR 0xE9] @ ''mon with id ''
                       @ toString (params_pokemon_id req) @ '' not found'') 404)), d)
      | Some pokemon \<Rightarrow> (At_findOne req, d))"
| "create_step (At_findOne req) d =
     (case Favourite_findOne d (uid (req_user req)) (params_pokemon_id req) of
        Some existingFavourite \<Rightarrow>
          (Finished (Next (AppError (''User with id '' @ toString (uid (req_user req))
                       @ '' has already liked the Pok'' @ [CHR 0xE9] @ ''mon with id ''
                       @ toString (params_pokemon_id req)) 400)), d)
      | None \<Rightarrow> (At_create req, d))"
| "create_step (At_create req) d =
     (case Favourite_create
             \<lparr>user_id = uid (req_user req), pokemon_id = params_pokemon_id req\<rparr> d of
        Inl err \<Rightarrow> (Finished (Rejected err), d)
      | Inr (None, d') \<Rightarrow>
          (Finished (Next (AppError (''Failed to add Pok'' @ [CHR 0xE9] @ ''mon to favourites'') 400)),
           d')
      | Inr (Some favourite, d') \<Rightarrow>
          (Finished (Res 201 (FavouriteBody ''Success'' favourite)), d'))"
| "create_step (Finished out) d = (Finished out, d)"

text \<open>A schedule says which of the two requests takes the next step.\<close>

datatype turn = First | Second

fun race_step :: "turn \<Rightarrow> create_progress \<times> create_progress \<times> db
    \<Rightarrow> create_progress \<times> create_progress \<times> db" where
  "race_step First (a, b, d) = (fst (create_step a d), b, snd (create_step a d))"
| "race_step Second (a, b, d) = (a, fst (create_step b d), snd (create_step b d))"

fun race :: "turn list \<Rightarrow> create_progress \<times> create_progress \<times> db
    \<Rightarrow> create_progress \<times> create_progress \<times> db" where
  "race [] s = s"
| "race (t # ts) s = race ts (race_step t s)"

text \<open>Two requests for the same user and catalog entry, run under a schedule.\<close>

definition concurrent_adds :: "turn list \<Rightarrow> request \<Rightarrow> db
    \<Rightarrow> create_progress \<times> create_progress \<times> db" where
  "concurrent_adds ts req d = race ts (At_findByPk req, At_findByPk req, d)"

text \<open>A schedule is complete when it gives each request its three steps.\<close>

definition complete :: "turn list \<Rightarrow> bool" where
  "complete ts = (3 \<le> count_list ts First \<and> 3 \<le> count_list ts Second)"

text \<open>The steps a request still has to take.\<close>

fun steps_left :: "create_progress \<Rightarrow> nat" where
  "steps_left (At_findByPk req) = 3"
| "steps_left (At_findOne req) = 2"
| "steps_left (At_create req) = 1"
| "steps_left (Finished out) = 0"

text \<open>The three ways an add request for a stored catalog entry can end.\<close>

fun is_created :: "outcome \<Rightarrow> bool" where
  "is_created (Res c b) = (c = 201)"
| "is_created (Next err) = False"
| "is_created (Rejected err) = False"

fun is_conflict :: "outcome \<Rightarrow> bool" where
  "is_conflict (Res c b) = False"
| "is_conflict (Next err) = (statusCode err = 400)"
| "is_conflict (Rejected err) = False"

fun is_refused :: "outcome \<Rightarrow> bool" where
  "is_refused (Res c b) = False"
| "is_refused (Next err) = False"
| "is_refused (Rejected err) = (err = SequelizeUniqueConstraintError)"

text \<open>
  What holds of a request in flight for \<open>req\<close>: it is still a request for \<open>req\<close>, or it
  created the row, or it failed on a row that is stored.
\<close>

fun progress_inv :: "request \<Rightarrow> db \<Rightarrow> create_progress \<Rightarrow> bool" where
  "progress_inv req d (At_findByPk r) = (r = req)"
| "progress_inv req d (At_findOne r) = (r = req)"
| "progress_inv req d (At_create r) = (r = req)"
| "progress_inv req d (Finished out) =
     (is_created out
      \<or> ((is_conflict out \<or> is_refused out)
          \<and> rows_for (uid (req_user req)) (params_pokemon_id req) (favourites d) \<noteq> []))"

fun created_count :: "create_progress \<Rightarrow> nat" where
  "created_count (Finished out) = (if is_created out then 1 else 0)"
| "created_count (At_findByPk r) = 0"
| "created_count (At_findOne r) = 0"
| "created_count (At_create r) = 0"

fun race_inv :: "request \<Rightarrow> create_progress \<times> create_progress \<times> db \<Rightarrow> bool" where
  "race_inv req (a, b, d) =
     (Pokemon_findByPk d (params_pokemon_id req) \<noteq> None
      \<and> progress_inv req d a \<and> progress_inv req d b
      \<and> length (rows_for (uid (req_user req)) (params_pokemon_id req) (favourites d))
          = created_count a + created_count b
      \<and> length (rows_for (uid (req_user req)) (params_pokemon_id req) (favourites d)) \<le> 1)"

subsection \<open>A small database to run the handlers on\<close>

text \<open>
  The example of the spec: user 7 and catalog entry 25, Pikachu. A second catalog entry
  and a user without a row in the users table serve the other cases.
\<close>

definition pikachu :: pokemon where
  "pikachu = \<lparr>p_id = 25, p_name = ''Pikachu''\<rparr>"

definition bulbasaur :: pokemon where
  "bulbasaur = \<lparr>p_id = 1, p_name = ''Bulbasaur''\<rparr>"

definition db0 :: db where
  "db0 = \<lparr>users = [\<lparr>u_id = 7\<rparr>], pokemons = [bulbasaur, pikachu], favourites = []\<rparr>"

definition fav_7_25 :: favourite where
  "fav_7_25 = \<lparr>user_id = 7, pokemon_id = 25\<rparr>"

definition fav_7_1 :: favourite where
  "fav_7_1 = \<lparr>user_id = 7, pokemon_id = 1\<rparr>"

definition db1 :: db where
  "db1 = db0\<lparr>favourites := [fav_7_25]\<rparr>"

definition db2 :: db where
  "db2 = db0\<lparr>favourites := [fav_7_1, fav_7_25]\<rparr>"

definition db3 :: db where
  "db3 = db0\<lparr>favourites := [fav_7_1]\<rparr>"

definition req_7_25 :: request where
  "req_7_25 = \<lparr>req_user = \<lparr>uid = 7\<rparr>, params_pokemon_id = 25\<rparr>"

definition req_7_1 :: request where
  "req_7_1 = \<lparr>req_user = \<lparr>uid = 7\<rparr>, params_pokemon_id = 1\<rparr>"

definition req_7_150 :: request where
  "req_7_150 = \<lparr>req_user = \<lparr>uid = 7\<rparr>, params_pokemon_id = 150\<rparr>"

definition req_8_25 :: request where
  "req_8_25 = \<lparr>req_user = \<lparr>uid = 8\<rparr>, params_pokemon_id = 25\<rparr>"

section \<open>Facts about the store\<close>

lemma findOne_None_iff:
  "Favourite_findOne d u p = None \<longleftrightarrow> rows_for u p (favourites d) = []"
  by (auto simp: Favourite_findOne_def rows_for_def find_None_iff filter_empty_conv)

lemma findOne_Some_row:
  "Favourite_findOne d u p = Some f \<Longrightarrow> f \<in> set (favourites d) \<and> user_id f = u \<and> pokemon_id f = p"
  by (auto simp: Favourite_findOne_def find_Some_iff)

lemma create_no_clash:
  "rows_for (user_id row) (pokemon_id row) (favourites d) = [] \<Longrightarrow>
   Favourite_create row d = Inr (Some row, d\<lparr>favourites := favourites d @ [row]\<rparr>)"
  by (auto simp: Favourite_create_def rows_for_def filter_empty_conv)

lemma createFavourite_cases:
  "createFavourite req d =
     (if Pokemon_findByPk d (params_pokemon_id req) = None
      then (Next (AppError (''Pok'' @ [CHR 0xE9] @ ''mon with id '' @ toString (params_pokemon_id req)
                    @ '' not found'') 404), d)
      else if rows_for (uid (req_user req)) (params_pokemon_id req) (favourites d) \<noteq> []
      then (Next (AppError (''User with id '' @ toString (uid (req_user req))
                    @ '' has already liked the Pok'' @ [CHR 0xE9] @ ''mon with id ''
                    @ toString (params_pokemon_id req)) 400), d)
      else (Res 201 (FavouriteBody ''Success''
                    \<lparr>user_id = uid (req_user req), pokemon_id = params_pokemon_id req\<rparr>),
            d\<lparr>favourites := favourites d
                  @ [\<lparr>user_id = uid (req_user req), pokemon_id = params_pokemon_id req\<rparr>]\<rparr>))"
proof (cases "Pokemon_findByPk d (params_pokemon_id req)")
  case None
  then show ?thesis by (simp add: createFavourite_def Let_def)
next
  case (Some pk)
  show ?thesis
  proof (cases "Favourite_findOne d (uid (req_user req)) (params_pokemon_id req)")
    case None
    then have e: "rows_for (uid (req_user req)) (params_pokemon_id req) (favourites d) = []"
      by (simp add: findOne_None_iff)
    with Some None show ?thesis
      by (simp add: createFavourite_def create_no_clash Let_def)
  next
    case (Some f)
    then have "rows_for (uid (req_user req)) (params_pokemon_id req) (favourites d) \<noteq> []"
      using findOne_None_iff [of d "uid (req_user req)" "params_pokemon_id req"] by simp
    with Some \<open>Pokemon_findByPk d (params_pokemon_id req) = Some pk\<close> show ?thesis
      by (simp add: createFavourite_def Let_def)
  qed
qed

lemma deleteFavourite_cases:
  "deleteFavourite req d =
     (case Favourite_findOne d (uid (req_user req)) (params_pokemon_id req) of
        None \<Rightarrow>
          (Next (AppError (''User '' @ toString (uid (req_user req)) @ '' doesn'' @ [CHR 0x27]
                   @ ''t like pokemon with id '' @ toString (params_pokemon_id req)) 404), d)
      | Some f \<Rightarrow>
          (Res 204 (MessageBody ''Success''
             (''User '' @ toString (uid (req_user req)) @ '' no longer likes pokemon with id''
                @ toString (params_pokemon_id req))),
           d\<lparr>favourites := remove1 f (favourites d)\<rparr>))"
  by (simp add: deleteFavourite_def Favourite_destroy_def Let_def split: option.splits)

lemma unique_pairs_append:
  "unique_pairs favs \<Longrightarrow> rows_for (user_id row) (pokemon_id row) favs = [] \<Longrightarrow>
   unique_pairs (favs @ [row])"
  by (auto simp: unique_pairs_def rows_for_def pair_of_def filter_empty_conv)

lemma unique_pairs_remove1:
  "unique_pairs favs \<Longrightarrow> unique_pairs (remove1 f favs)"
  unfolding unique_pairs_def
proof (induction favs)
  case Nil
  show ?case by simp
next
  case (Cons a favs)
  have "pair_of ` set (remove1 f favs) \<subseteq> pair_of ` set favs"
    using set_remove1_subset [of f favs] by blast
  with Cons show ?case by auto
qed

lemma createFavourite_unique:
  "unique_pairs (favourites d) \<Longrightarrow> unique_pairs (favourites (snd (createFavourite req d)))"
  by (simp add: createFavourite_cases unique_pairs_append)

lemma deleteFavourite_unique:
  "unique_pairs (favourites d) \<Longrightarrow> unique_pairs (favourites (snd (deleteFavourite req d)))"
  by (simp add: deleteFavourite_cases unique_pairs_remove1 split: option.splits)

lemma apply_operation_unique:
  "unique_pairs (favourites d) \<Longrightarrow> unique_pairs (favourites (apply_operation x d))"
  by (cases x) (simp_all add: createFavourite_unique deleteFavourite_unique)

lemma states_after_unique:
  "unique_pairs (favourites d) \<Longrightarrow> \<forall>d' \<in> set (states_after ops d). unique_pairs (favourites d')"
proof (induction ops arbitrary: d)
  case Nil
  show ?case by simp
next
  case (Cons x ops)
  have "unique_pairs (favourites (apply_operation x d))"
    using Cons.prems by (rule apply_operation_unique)
  with Cons.IH [of "apply_operation x d"] show ?case by simp
qed

lemma rows_for_pairs:
  "length (rows_for u p favs) = count_list (map pair_of favs) (u, p)"
  by (induction favs) (auto simp: rows_for_def pair_of_def)

section \<open>Facts about the join\<close>

lemma find_pk_id: "find (\<lambda>q. p_id q = k) ps = Some pk \<Longrightarrow> p_id pk = k"
  by (auto simp: find_Some_iff)

lemma project_id [simp]: "v_id (project q) = p_id q"
  by (simp add: project_def)

lemma join_count:
  assumes "find (\<lambda>q. p_id q = p) ps = Some pk"
  shows "count_list (List.map_filter (\<lambda>f. map_option project (find (\<lambda>q. p_id q = pokemon_id f) ps))
            (filter (\<lambda>f. user_id f = u) favs)) (project pk)
         = length (filter (\<lambda>f. user_id f = u \<and> pokemon_id f = p) favs)"
proof (induction favs)
  case Nil
  show ?case by (simp add: List.map_filter_simps)
next
  case (Cons f favs)
  have pk: "p_id pk = p" using assms by (rule find_pk_id)
  show ?case
  proof (cases "find (\<lambda>q. p_id q = pokemon_id f) ps")
    case None
    with assms have "pokemon_id f \<noteq> p" by auto
    with None Cons show ?thesis by (simp add: List.map_filter_simps)
  next
    case (Some q)
    then have q: "p_id q = pokemon_id f" by (rule find_pk_id)
    show ?thesis
    proof (cases "pokemon_id f = p")
      case True
      with Some assms have "q = pk" by simp
      with True Some Cons show ?thesis by (simp add: List.map_filter_simps)
    next
      case False
      with q pk have "project q \<noteq> project pk"
        by (metis project_id)
      with False Some Cons show ?thesis by (simp add: List.map_filter_simps)
    qed
  qed
qed

lemma joined_count:
  "Pokemon_findByPk d p = Some pk \<Longrightarrow>
   count_list (joined_pokemons d u) (project pk) = length (rows_for u p (favourites d))"
  unfolding Pokemon_findByPk_def joined_pokemons_def rows_for_def
  by (rule join_count)

lemma join_ids:
  "v_id ` set (List.map_filter (\<lambda>f. map_option project (find (\<lambda>q. p_id q = pokemon_id f) ps)) favs)
     \<subseteq> pokemon_id ` set favs"
proof (induction favs)
  case Nil
  show ?case by (simp add: List.map_filter_simps)
next
  case (Cons f favs)
  show ?case
  proof (cases "find (\<lambda>q. p_id q = pokemon_id f) ps")
    case None
    with Cons show ?thesis by (auto simp: List.map_filter_simps)
  next
    case (Some q)
    then have "p_id q = pokemon_id f" by (rule find_pk_id)
    with Some Cons show ?thesis by (auto simp: List.map_filter_simps)
  qed
qed

lemma joined_ids:
  "x \<in> set (joined_pokemons d u) \<Longrightarrow> rows_for u (v_id x) (favourites d) \<noteq> []"
proof -
  assume "x \<in> set (joined_pokemons d u)"
  then have "v_id x \<in> pokemon_id ` set (filter (\<lambda>f. user_id f = u) (favourites d))"
    unfolding joined_pokemons_def Pokemon_findByPk_def using join_ids by blast
  then show ?thesis
    by (auto simp: rows_for_def filter_empty_conv)
qed

lemma joined_empty:
  "filter (\<lambda>f. user_id f = u) (favourites d) = [] \<Longrightarrow> joined_pokemons d u = []"
  by (simp add: joined_pokemons_def List.map_filter_simps)

lemma joined_nonempty:
  assumes "refs_ok d" and "filter (\<lambda>f. user_id f = u) (favourites d) \<noteq> []"
  shows "joined_pokemons d u \<noteq> []"
proof -
  from assms(2) obtain f where f: "f \<in> set (favourites d)" "user_id f = u"
    by (auto simp: filter_empty_conv)
  with assms(1) obtain pk where pk: "Pokemon_findByPk d (pokemon_id f) = Some pk"
    by (auto simp: refs_ok_def list_all_iff)
  from f have "rows_for u (pokemon_id f) (favourites d) \<noteq> []"
    by (auto simp: rows_for_def filter_empty_conv)
  with joined_count [OF pk, of u] have "count_list (joined_pokemons d u) (project pk) \<noteq> 0"
    by simp
  then show ?thesis by auto
qed

lemma readFavourite_cases:
  "readFavourite req d =
     (if \<not> user_exists d (uid (req_user req)) then (Rejected TypeError, d)
      else if joined_pokemons d (uid (req_user req)) = []
      then (Next (AppError (''No favourite Pok'' @ [CHR 0xE9] @ ''mon found for user with id ''
                    @ toString (uid (req_user req))) 404), d)
      else (Res 200 (UserBody ''Success'' \<lparr>view_pokemons = joined_pokemons d (uid (req_user req))\<rparr>), d))"
  by (auto simp: readFavourite_def User_findByPk_def user_exists_def split: option.splits)

section \<open>Facts about the handlers\<close>

text \<open>
  The invariant in the words of the spec: \<open>unique_pairs\<close> holds exactly when no pair has more
  than one row.
\<close>

lemma rows_for_empty_iff:
  "rows_for u p favs = [] \<longleftrightarrow> (u, p) \<notin> pair_of ` set favs"
  by (auto simp: rows_for_def pair_of_def filter_empty_conv image_iff)

lemma unique_pairs_count:
  "unique_pairs favs \<longleftrightarrow> (\<forall>u p. length (rows_for u p favs) \<le> 1)"
proof (induction favs)
  case Nil
  show ?case by (simp add: unique_pairs_def rows_for_def)
next
  case (Cons f favs)
  show ?case
  proof
    assume a: "unique_pairs (f # favs)"
    then have n: "rows_for (user_id f) (pokemon_id f) favs = []"
      by (simp add: unique_pairs_def rows_for_empty_iff pair_of_def)
    from a have "unique_pairs favs" by (simp add: unique_pairs_def)
    with Cons have le: "\<forall>u p. length (rows_for u p favs) \<le> 1" by simp
    show "\<forall>u p. length (rows_for u p (f # favs)) \<le> 1"
    proof (intro allI)
      fix u p
      show "length (rows_for u p (f # favs)) \<le> 1"
      proof (cases "user_id f = u \<and> pokemon_id f = p")
        case True
        with n show ?thesis by (auto simp: rows_for_def)
      next
        case False
        with le [rule_format, of u p] show ?thesis by (auto simp: rows_for_def)
      qed
    qed
  next
    assume a: "\<forall>u p. length (rows_for u p (f # favs)) \<le> 1"
    have "length (rows_for u p favs) \<le> 1" for u p
      using a [rule_format, of u p] by (auto simp: rows_for_def split: if_splits)
    with Cons have u: "unique_pairs favs" by simp
    from a [rule_format, of "user_id f" "pokemon_id f"]
    have "rows_for (user_id f) (pokemon_id f) favs = []"
      by (simp add: rows_for_def)
    then have "pair_of f \<notin> pair_of ` set favs"
      by (simp add: rows_for_empty_iff pair_of_def)
    with u show "unique_pairs (f # favs)" by (simp add: unique_pairs_def)
  qed
qed

text \<open>
  The controller asks \<^verbatim>\<open>Favourite.findOne\<close> before it inserts, so in a single request the
  insert is never refused by the uniqueness constraint.
\<close>

lemma createFavourite_never_rejects:
  "fst (createFavourite req d) \<noteq> Rejected e"
  by (simp add: createFavourite_cases)

lemma createFavourite_tables:
  "users (snd (createFavourite req d)) = users d \<and> pokemons (snd (createFavourite req d)) = pokemons d"
  by (simp add: createFavourite_cases)

lemma deleteFavourite_tables:
  "users (snd (deleteFavourite req d)) = users d \<and> pokemons (snd (deleteFavourite req d)) = pokemons d"
  by (simp add: deleteFavourite_cases split: option.splits)

lemma Pokemon_findByPk_create [simp]:
  "Pokemon_findByPk (snd (createFavourite req d)) k = Pokemon_findByPk d k"
  by (simp add: Pokemon_findByPk_def createFavourite_tables)

lemma Pokemon_findByPk_delete [simp]:
  "Pokemon_findByPk (snd (deleteFavourite req d)) k = Pokemon_findByPk d k"
  by (simp add: Pokemon_findByPk_def deleteFavourite_tables)

lemma user_exists_create [simp]:
  "user_exists (snd (createFavourite req d)) k = user_exists d k"
  by (simp add: user_exists_def createFavourite_tables)

lemma user_exists_delete [simp]:
  "user_exists (snd (deleteFavourite req d)) k = user_exists d k"
  by (simp add: user_exists_def deleteFavourite_tables)

lemma createFavourite_one_row:
  assumes "Pokemon_findByPk d (params_pokemon_id req) \<noteq> None"
    and "unique_pairs (favourites d)"
  shows "length (rows_for (uid (req_user req)) (params_pokemon_id req)
           (favourites (snd (createFavourite req d)))) = 1"
proof (cases "rows_for (uid (req_user req)) (params_pokemon_id req) (favourites d) = []")
  case True
  with assms(1) show ?thesis
    by (simp add: createFavourite_cases) (simp add: rows_for_def)
next
  case False
  moreover from assms(2)
  have "length (rows_for (uid (req_user req)) (params_pokemon_id req) (favourites d)) \<le> 1"
    by (simp add: unique_pairs_count)
  ultimately have "length (rows_for (uid (req_user req)) (params_pokemon_id req) (favourites d)) = 1"
    by (cases "rows_for (uid (req_user req)) (params_pokemon_id req) (favourites d)") auto
  with False assms(1) show ?thesis
    by (simp add: createFavourite_cases)
qed

text \<open>Both writing handlers keep every favourites row pointing to a catalog entry.\<close>

lemma createFavourite_refs:
  "refs_ok d \<Longrightarrow> refs_ok (snd (createFavourite req d))"
  by (auto simp: createFavourite_cases refs_ok_def Pokemon_findByPk_def list_all_iff)

lemma deleteFavourite_subset:
  "set (favourites (snd (deleteFavourite req d))) \<subseteq> set (favourites d)"
proof (cases "Favourite_findOne d (uid (req_user req)) (params_pokemon_id req)")
  case None
  then show ?thesis by (simp add: deleteFavourite_cases)
next
  case (Some f)
  with set_remove1_subset [of f "favourites d"] show ?thesis
    by (simp add: deleteFavourite_cases)
qed

lemma deleteFavourite_refs:
  "refs_ok d \<Longrightarrow> refs_ok (snd (deleteFavourite req d))"
  using deleteFavourite_subset [of req d]
  by (auto simp: refs_ok_def list_all_iff Pokemon_findByPk_def deleteFavourite_tables)

lemma remove1_rows_gone:
  "unique_pairs favs \<Longrightarrow> f \<in> set favs \<Longrightarrow>
   rows_for (user_id f) (pokemon_id f) (remove1 f favs) = []"
proof (induction favs)
  case Nil
  then show ?case by simp
next
  case (Cons a favs)
  show ?case
  proof (cases "a = f")
    case True
    with Cons.prems(1) show ?thesis
      by (simp add: unique_pairs_def rows_for_empty_iff pair_of_def)
  next
    case False
    with Cons.prems have "f \<in> set favs" "unique_pairs favs" "pair_of a \<noteq> pair_of f"
      by (auto simp: unique_pairs_def)
    with Cons.IH False show ?thesis
      by (auto simp: rows_for_def pair_of_def)
  qed
qed

lemma deleteFavourite_rows_gone:
  assumes "unique_pairs (favourites d)"
  shows "rows_for (uid (req_user req)) (params_pokemon_id req)
           (favourites (snd (deleteFavourite req d))) = []"
proof (cases "Favourite_findOne d (uid (req_user req)) (params_pokemon_id req)")
  case None
  moreover from None
  have "rows_for (uid (req_user req)) (params_pokemon_id req) (favourites d) = []"
    by (simp add: findOne_None_iff)
  ultimately show ?thesis by (simp add: deleteFavourite_cases)
next
  case (Some f)
  from findOne_Some_row [OF Some] remove1_rows_gone [OF assms, of f] Some
  show ?thesis by (simp add: deleteFavourite_cases)
qed

text \<open>
  Under the invariant, deleting the row that was found and deleting every row of its pair
  are the same.
\<close>

lemma unique_remove1_filter:
  "unique_pairs favs \<Longrightarrow> f \<in> set favs \<Longrightarrow>
   remove1 f favs = filter (\<lambda>g. pair_of g \<noteq> pair_of f) favs"
proof (induction favs)
  case Nil
  then show ?case by simp
next
  case (Cons a favs)
  show ?case
  proof (cases "a = f")
    case True
    with Cons.prems(1) have "pair_of f \<notin> pair_of ` set favs"
      by (simp add: unique_pairs_def)
    then have "\<forall>g \<in> set favs. pair_of g \<noteq> pair_of f"
      by (metis imageI)
    then have "filter (\<lambda>g. pair_of g \<noteq> pair_of f) favs = favs"
      by (simp add: filter_id_conv)
    with True show ?thesis by simp
  next
    case False
    with Cons.prems have "f \<in> set favs" "unique_pairs favs" "pair_of a \<noteq> pair_of f"
      by (auto simp: unique_pairs_def)
    with Cons.IH False show ?thesis by simp
  qed
qed

lemma createFavourite_subset:
  "set (favourites (snd (createFavourite req d)))
     \<subseteq> insert \<lparr>user_id = uid (req_user req), pokemon_id = params_pokemon_id req\<rparr>
         (set (favourites d))"
  by (auto simp: createFavourite_cases)

text \<open>
  What a successful delete does: under the invariant, the row of the pair is the only
  row that leaves the table.
\<close>

lemma deleteFavourite_existing_row:
  assumes "rows_for (uid (req_user req)) (params_pokemon_id req) (favourites d) \<noteq> []"
    and "unique_pairs (favourites d)"
  shows "deleteFavourite req d =
     (Res 204 (MessageBody ''Success''
        (''User '' @ toString (uid (req_user req)) @ '' no longer likes pokemon with id''
           @ toString (params_pokemon_id req))),
      d\<lparr>favourites := filter (\<lambda>g. pair_of g \<noteq> (uid (req_user req), params_pokemon_id req))
                         (favourites d)\<rparr>)"
proof -
  from assms(1) obtain f
    where f: "Favourite_findOne d (uid (req_user req)) (params_pokemon_id req) = Some f"
    using findOne_None_iff [of d "uid (req_user req)" "params_pokemon_id req"] by auto
  from findOne_Some_row [OF f]
  have m: "f \<in> set (favourites d)" and p: "pair_of f = (uid (req_user req), params_pokemon_id req)"
    by (simp_all add: pair_of_def)
  from unique_remove1_filter [OF assms(2) m] p f show ?thesis
    by (simp add: deleteFavourite_cases)
qed

lemma favourite_row_eq:
  "user_id f = u \<Longrightarrow> pokemon_id f = p \<Longrightarrow> (f::favourite) = \<lparr>user_id = u, pokemon_id = p\<rparr>"
  by (cases f) simp

text \<open>
  On a successful delete the handler passes a body to \<^verbatim>\<open>res.json\<close>; with status 204 it is
  not sent.
\<close>

lemma deleteFavourite_body_not_sent:
  "fst (deleteFavourite req_7_25 db1)
     = Res 204 (MessageBody ''Success'' ''User 7 no longer likes pokemon with id25'')
   \<and> response_of (fst (deleteFavourite req_7_25 db1)) = Some \<lparr>resp_status = 204, resp_body = None\<rparr>"
  by (simp add: deleteFavourite_cases Favourite_findOne_def db1_def db0_def req_7_25_def
      fav_7_25_def toString_def show_nat.simps res_json_def)

section \<open>Facts about two requests in flight\<close>

text \<open>The three steps of a request, taken without interruption, are the handler.\<close>

lemma create_steps_handler:
  "create_step (fst (create_step (fst (create_step (At_findByPk req) d))
                      (snd (create_step (At_findByPk req) d))))
               (snd (create_step (fst (create_step (At_findByPk req) d))
                      (snd (create_step (At_findByPk req) d))))
   = (Finished (fst (createFavourite req d)), snd (createFavourite req d))"
  by (simp add: createFavourite_def Let_def split: option.splits sum.splits prod.splits)

lemma create_step_At_findOne:
  "create_step (At_findOne req) d =
     (if rows_for (uid (req_user req)) (params_pokemon_id req) (favourites d) = []
      then (At_create req, d)
      else (Finished (Next (AppError (''User with id '' @ toString (uid (req_user req))
                       @ '' has already liked the Pok'' @ [CHR 0xE9] @ ''mon with id ''
                       @ toString (params_pokemon_id req)) 400)), d))"
  using findOne_None_iff [of d "uid (req_user req)" "params_pokemon_id req"]
  by (auto split: option.splits)

lemma create_step_At_create:
  "create_step (At_create req) d =
     (if rows_for (uid (req_user req)) (params_pokemon_id req) (favourites d) = []
      then (Finished (Res 201 (FavouriteBody ''Success''
                \<lparr>user_id = uid (req_user req), pokemon_id = params_pokemon_id req\<rparr>)),
            d\<lparr>favourites := favourites d
                  @ [\<lparr>user_id = uid (req_user req), pokemon_id = params_pokemon_id req\<rparr>]\<rparr>)
      else (Finished (Rejected SequelizeUniqueConstraintError), d))"
  by (auto simp: Favourite_create_def rows_for_def filter_empty_conv)

lemma create_step_inv:
  assumes "race_inv req (a, b, d)"
  shows "race_inv req (fst (create_step a d), b, snd (create_step a d))"
proof (cases a)
  case (At_findByPk r)
  with assms show ?thesis by (auto split: option.splits)
next
  case (At_findOne r)
  with assms have r: "r = req" by simp
  show ?thesis
  proof (cases "rows_for (uid (req_user req)) (params_pokemon_id req) (favourites d) = []")
    case True
    with assms At_findOne r show ?thesis by (simp del: create_step.simps add: create_step_At_findOne)
  next
    case False
    with assms At_findOne r show ?thesis by (simp del: create_step.simps add: create_step_At_findOne)
  qed
next
  case (At_create r)
  with assms have r: "r = req" by simp
  show ?thesis
  proof (cases "rows_for (uid (req_user req)) (params_pokemon_id req) (favourites d) = []")
    case True
    with assms At_create have cb: "created_count b = 0" by simp
    have pb: "progress_inv req
        (d\<lparr>favourites := favourites d
              @ [\<lparr>user_id = uid (req_user req), pokemon_id = params_pokemon_id req\<rparr>]\<rparr>) b"
      using assms cb True by (cases b) (auto split: if_splits)
    from assms At_create r True cb pb show ?thesis
      by (simp del: create_step.simps add: create_step_At_create Pokemon_findByPk_def) (simp add: rows_for_def)
  next
    case False
    with assms At_create r show ?thesis by (simp del: create_step.simps add: create_step_At_create)
  qed
next
  case (Finished out)
  with assms show ?thesis by simp
qed

lemma race_inv_swap:
  "race_inv req (a, b, d) = race_inv req (b, a, d)"
  by auto

lemma race_step_inv:
  assumes "race_inv req (a, b, d)"
  shows "race_inv req (race_step t (a, b, d))"
proof (cases t)
  case First
  with create_step_inv [OF assms] show ?thesis by simp
next
  case Second
  from assms have "race_inv req (b, a, d)" by (simp only: race_inv_swap)
  then have "race_inv req (fst (create_step b d), a, snd (create_step b d))"
    by (rule create_step_inv)
  then have "race_inv req (a, fst (create_step b d), snd (create_step b d))"
    by (simp only: race_inv_swap)
  with Second show ?thesis by simp
qed

lemma race_inv_race:
  "race_inv req s \<Longrightarrow> race_inv req (race ts s)"
proof (induction ts arbitrary: s)
  case Nil
  then show ?case by simp
next
  case (Cons t ts)
  obtain a b d where s: "s = (a, b, d)" by (cases s)
  with Cons.prems have "race_inv req (race_step t s)" by (simp only: race_step_inv)
  then show ?case using Cons.IH by simp
qed

lemma steps_left_step:
  "steps_left (fst (create_step a d)) \<le> steps_left a - 1"
  by (cases a) (auto split: option.splits sum.splits prod.splits)

lemma steps_left_0:
  "steps_left a = 0 \<Longrightarrow> \<exists>out. a = Finished out"
  by (cases a) simp_all

lemma race_finishes:
  "steps_left a \<le> count_list ts First \<Longrightarrow> steps_left b \<le> count_list ts Second \<Longrightarrow>
   \<exists>o1 o2 d'. race ts (a, b, d) = (Finished o1, Finished o2, d')"
proof (induction ts arbitrary: a b d)
  case Nil
  then show ?case using steps_left_0 [of a] steps_left_0 [of b] by auto
next
  case (Cons t ts)
  show ?case
  proof (cases t)
    case First
    from Cons.prems(1) First steps_left_step [of a d]
    have "steps_left (fst (create_step a d)) \<le> count_list ts First" by simp
    moreover from Cons.prems(2) First have "steps_left b \<le> count_list ts Second" by simp
    ultimately show ?thesis using Cons.IH First by simp
  next
    case Second
    from Cons.prems(2) Second steps_left_step [of b d]
    have "steps_left (fst (create_step b d)) \<le> count_list ts Second" by simp
    moreover from Cons.prems(1) Second have "steps_left a \<le> count_list ts First" by simp
    ultimately show ?thesis
      using Cons.IH [of a "fst (create_step b d)" "snd (create_step b d)"] Second by simp
  qed
qed

text \<open>
  Under every complete schedule both requests finish, one row is stored for the pair,
  one request created it and the other ended in the conflict error or in a refused insert.
\<close>

lemma concurrent_adds_outcomes:
  assumes "complete ts"
    and "Pokemon_findByPk d (params_pokemon_id req) \<noteq> None"
    and "rows_for (uid (req_user req)) (params_pokemon_id req) (favourites d) = []"
  shows "\<exists>o1 o2 d'. concurrent_adds ts req d = (Finished o1, Finished o2, d')
           \<and> length (rows_for (uid (req_user req)) (params_pokemon_id req) (favourites d')) = 1
           \<and> ((is_created o1 \<and> (is_conflict o2 \<or> is_refused o2))
                \<or> (is_created o2 \<and> (is_conflict o1 \<or> is_refused o1)))"
proof -
  from assms(1) obtain o1 o2 d'
    where f: "race ts (At_findByPk req, At_findByPk req, d) = (Finished o1, Finished o2, d')"
    using race_finishes [of "At_findByPk req" ts "At_findByPk req" d]
    by (auto simp: complete_def)
  from assms(2,3) have "race_inv req (At_findByPk req, At_findByPk req, d)" by simp
  then have "race_inv req (race ts (At_findByPk req, At_findByPk req, d))"
    by (rule race_inv_race)
  with f have i: "race_inv req (Finished o1, Finished o2, d')" by simp
  then have "length (rows_for (uid (req_user req)) (params_pokemon_id req) (favourites d')) = 1
           \<and> ((is_created o1 \<and> (is_conflict o2 \<or> is_refused o2))
                \<or> (is_created o2 \<and> (is_conflict o1 \<or> is_refused o1)))"
    by (auto split: if_splits)
  with f show ?thesis by (simp add: concurrent_adds_def)
qed

text \<open>When the second request starts after the first has finished, it ends in the conflict error.\<close>

lemma sequential_adds_conflict:
  "\<exists>msg. concurrent_adds [First, First, First, Second, Second, Second] req_7_25 db0
     = (Finished (Res 201 (FavouriteBody ''Success'' fav_7_25)),
        Finished (Next (AppError msg 400)),
        db1)"
  by (simp add: concurrent_adds_def Pokemon_findByPk_def Favourite_findOne_def Favourite_create_def
      db0_def db1_def req_7_25_def fav_7_25_def pikachu_def bulbasaur_def)

section \<open>The claims\<close>

text \<open>
  Claim C1. Starting from a favourites table with at most one row per pair
  \<^verbatim>\<open>(user_id, pokemon_id)\<close>, the table has at most one row per pair after each operation of
  any sequence of add and remove requests. Whenever \<^verbatim>\<open>createFavourite\<close> changes the table,
  no row for the pair was stored and the new row is the one appended; whenever
  \<^verbatim>\<open>deleteFavourite\<close> changes the table, it removed a row that was stored for the pair.
\<close>

theorem favourite_pairs_stay_unique:
  assumes "unique_pairs (favourites d)"
  shows "(\<forall>d' \<in> set (states_after ops d). unique_pairs (favourites d'))
    \<and> (\<forall>req s. favourites (snd (createFavourite req s)) \<noteq> favourites s \<longrightarrow>
          rows_for (uid (req_user req)) (params_pokemon_id req) (favourites s) = []
          \<and> favourites (snd (createFavourite req s))
              = favourites s @ [\<lparr>user_id = uid (req_user req), pokemon_id = params_pokemon_id req\<rparr>])
    \<and> (\<forall>req s. favourites (snd (deleteFavourite req s)) \<noteq> favourites s \<longrightarrow>
          (\<exists>f \<in> set (favourites s). user_id f = uid (req_user req)
              \<and> pokemon_id f = params_pokemon_id req
              \<and> favourites (snd (deleteFavourite req s)) = remove1 f (favourites s)))"
proof (intro conjI allI impI)
  show "\<forall>d' \<in> set (states_after ops d). unique_pairs (favourites d')"
    using assms by (rule states_after_unique)
next
  fix req s
  assume "favourites (snd (createFavourite req s)) \<noteq> favourites s"
  then show "rows_for (uid (req_user req)) (params_pokemon_id req) (favourites s) = []"
    by (simp add: createFavourite_cases split: if_splits)
next
  fix req s
  assume "favourites (snd (createFavourite req s)) \<noteq> favourites s"
  then show "favourites (snd (createFavourite req s))
      = favourites s @ [\<lparr>user_id = uid (req_user req), pokemon_id = params_pokemon_id req\<rparr>]"
    by (simp add: createFavourite_cases split: if_splits)
next
  fix req s
  assume a: "favourites (snd (deleteFavourite req s)) \<noteq> favourites s"
  then obtain f where f: "Favourite_findOne s (uid (req_user req)) (params_pokemon_id req) = Some f"
    by (cases "Favourite_findOne s (uid (req_user req)) (params_pokemon_id req)")
       (auto simp: deleteFavourite_cases)
  from findOne_Some_row [OF f] f
  show "\<exists>f \<in> set (favourites s). user_id f = uid (req_user req)
              \<and> pokemon_id f = params_pokemon_id req
              \<and> favourites (snd (deleteFavourite req s)) = remove1 f (favourites s)"
    by (auto simp: deleteFavourite_cases)
qed

theorem favourite_pairs_stay_unique_witness:
  "unique_pairs (favourites db0)
   \<and> list_all (\<lambda>d'. unique_pairs (favourites d'))
        (states_after [Add req_7_25, Add req_7_1, Add req_7_25, Remove req_7_25, Remove req_7_25] db0)
   \<and> favourites (snd (createFavourite req_7_25 db0)) \<noteq> favourites db0
   \<and> rows_for (uid (req_user req_7_25)) (params_pokemon_id req_7_25) (favourites db0) = []
   \<and> favourites (snd (createFavourite req_7_25 db0)) = favourites db0 @ [fav_7_25]
   \<and> favourites (snd (deleteFavourite req_7_25 db2)) \<noteq> favourites db2
   \<and> (\<exists>f. f \<in> set (favourites db2) \<and> user_id f = 7 \<and> pokemon_id f = 25
          \<and> favourites (snd (deleteFavourite req_7_25 db2)) = remove1 f (favourites db2))"
proof -
  have h: "unique_pairs (favourites db0)"
    by (simp add: unique_pairs_def db0_def)
  note t = favourite_pairs_stay_unique [OF h,
      of "[Add req_7_25, Add req_7_1, Add req_7_25, Remove req_7_25, Remove req_7_25]"]
  from t [THEN conjunct1] have 1: "list_all (\<lambda>d'. unique_pairs (favourites d'))
        (states_after [Add req_7_25, Add req_7_1, Add req_7_25, Remove req_7_25, Remove req_7_25] db0)"
    by (simp only: list_all_iff)
  have c: "favourites (snd (createFavourite req_7_25 db0)) \<noteq> favourites db0"
    by (simp add: createFavourite_cases Pokemon_findByPk_def rows_for_def db0_def req_7_25_def
        pikachu_def bulbasaur_def)
  from t [THEN conjunct2, THEN conjunct1, rule_format, OF c]
  have 2: "rows_for (uid (req_user req_7_25)) (params_pokemon_id req_7_25) (favourites db0) = []
     \<and> favourites (snd (createFavourite req_7_25 db0)) = favourites db0 @ [fav_7_25]"
    by (simp add: fav_7_25_def req_7_25_def)
  have e: "favourites (snd (deleteFavourite req_7_25 db2)) \<noteq> favourites db2"
    by (simp add: deleteFavourite_cases Favourite_findOne_def db2_def db0_def req_7_25_def
        fav_7_25_def fav_7_1_def)
  from t [THEN conjunct2, THEN conjunct2, rule_format, OF e]
  have 3: "\<exists>f. f \<in> set (favourites db2) \<and> user_id f = 7 \<and> pokemon_id f = 25
          \<and> favourites (snd (deleteFavourite req_7_25 db2)) = remove1 f (favourites db2)"
    by (simp add: req_7_25_def Bex_def)
  from h 1 c 2 e 3 show ?thesis by simp
qed

text \<open>
  Claim C2. For an existing catalog entry and a table with at most one row per pair,
  adding the same favourite twice in sequence leaves exactly one row for the pair; the
  second call ends in \<^verbatim>\<open>next\<close> with the conflict error (status 400, "already liked") and
  returns the database of the first call unchanged.
\<close>

theorem add_twice_conflict:
  assumes "Pokemon_findByPk d (params_pokemon_id req) \<noteq> None"
    and "unique_pairs (favourites d)"
  shows "(\<exists>msg. createFavourite req (snd (createFavourite req d))
            = (Next (AppError msg 400), snd (createFavourite req d)))
         \<and> length (rows_for (uid (req_user req)) (params_pokemon_id req)
              (favourites (snd (createFavourite req (snd (createFavourite req d)))))) = 1"
proof -
  let ?d1 = "snd (createFavourite req d)"
  have one: "length (rows_for (uid (req_user req)) (params_pokemon_id req) (favourites ?d1)) = 1"
    using assms by (rule createFavourite_one_row)
  then have ne: "rows_for (uid (req_user req)) (params_pokemon_id req) (favourites ?d1) \<noteq> []"
    by auto
  from assms(1) have pk: "Pokemon_findByPk ?d1 (params_pokemon_id req) \<noteq> None" by simp
  from ne pk have "\<exists>msg. createFavourite req ?d1 = (Next (AppError msg 400), ?d1)"
    by (simp add: createFavourite_cases [of req ?d1])
  with one show ?thesis by auto
qed

theorem add_twice_conflict_witness:
  "Pokemon_findByPk db0 (params_pokemon_id req_7_25) \<noteq> None
   \<and> unique_pairs (favourites db0)
   \<and> (\<exists>msg. createFavourite req_7_25 (snd (createFavourite req_7_25 db0))
            = (Next (AppError msg 400), snd (createFavourite req_7_25 db0)))
   \<and> length (rows_for (uid (req_user req_7_25)) (params_pokemon_id req_7_25)
        (favourites (snd (createFavourite req_7_25 (snd (createFavourite req_7_25 db0)))))) = 1"
proof -
  have a: "Pokemon_findByPk db0 (params_pokemon_id req_7_25) \<noteq> None"
    by (simp add: Pokemon_findByPk_def db0_def req_7_25_def pikachu_def bulbasaur_def)
  have b: "unique_pairs (favourites db0)"
    by (simp add: unique_pairs_def db0_def)
  from a b add_twice_conflict [OF a b] show ?thesis by simp
qed

text \<open>
  Claim C3. When \<^verbatim>\<open>pokemon_id\<close> references no catalog entry, \<^verbatim>\<open>createFavourite\<close> ends in
  \<^verbatim>\<open>next\<close> with a 404 error and the database is the same before and after the call.
\<close>

theorem add_unknown_pokemon_not_found:
  assumes "Pokemon_findByPk d (params_pokemon_id req) = None"
  shows "\<exists>msg. createFavourite req d = (Next (AppError msg 404), d)"
  using assms by (simp add: createFavourite_cases)

theorem add_unknown_pokemon_not_found_witness:
  "Pokemon_findByPk db1 (params_pokemon_id req_7_150) = None
   \<and> (\<exists>msg. createFavourite req_7_150 db1 = (Next (AppError msg 404), db1))"
proof -
  have h: "Pokemon_findByPk db1 (params_pokemon_id req_7_150) = None"
    by (simp add: Pokemon_findByPk_def db1_def db0_def req_7_150_def pikachu_def bulbasaur_def)
  from h add_unknown_pokemon_not_found [OF h] show ?thesis by simp
qed

text \<open>
  Claim C4. For a user with a row in the users table, in a database whose favourites rows
  all point to catalog entries: when the user has no favourites row, \<^verbatim>\<open>readFavourite\<close>
  ends in \<^verbatim>\<open>next\<close> with a 404 error instead of an empty list, and it responds with
  status 200 exactly when the user has at least one favourites row.
\<close>

theorem list_not_found_iff_no_favourites:
  assumes "user_exists d (uid (req_user req))" and "refs_ok d"
  shows "(filter (\<lambda>f. user_id f = uid (req_user req)) (favourites d) = []
            \<longrightarrow> (\<exists>msg. readFavourite req d = (Next (AppError msg 404), d)))
       \<and> ((\<exists>body. readFavourite req d = (Res 200 body, d))
            \<longleftrightarrow> filter (\<lambda>f. user_id f = uid (req_user req)) (favourites d) \<noteq> [])"
proof (cases "filter (\<lambda>f. user_id f = uid (req_user req)) (favourites d) = []")
  case True
  then have "joined_pokemons d (uid (req_user req)) = []" by (rule joined_empty)
  with True assms(1) show ?thesis by (simp add: readFavourite_cases)
next
  case False
  with assms(2) have "joined_pokemons d (uid (req_user req)) \<noteq> []" by (rule joined_nonempty)
  with False assms(1) show ?thesis by (simp add: readFavourite_cases)
qed

theorem list_not_found_iff_no_favourites_witness:
  "user_exists db0 (uid (req_user req_7_25)) \<and> refs_ok db0
   \<and> filter (\<lambda>f. user_id f = uid (req_user req_7_25)) (favourites db0) = []
   \<and> (\<exists>msg. readFavourite req_7_25 db0 = (Next (AppError msg 404), db0))
   \<and> user_exists db1 (uid (req_user req_7_25)) \<and> refs_ok db1
   \<and> filter (\<lambda>f. user_id f = uid (req_user req_7_25)) (favourites db1) \<noteq> []
   \<and> (\<exists>body. readFavourite req_7_25 db1 = (Res 200 body, db1))"
proof -
  have a0: "user_exists db0 (uid (req_user req_7_25))"
    by (simp add: user_exists_def db0_def req_7_25_def)
  have b0: "refs_ok db0"
    by (simp add: refs_ok_def db0_def)
  have c0: "filter (\<lambda>f. user_id f = uid (req_user req_7_25)) (favourites db0) = []"
    by (simp add: db0_def)
  have a1: "user_exists db1 (uid (req_user req_7_25))"
    by (simp add: user_exists_def db1_def db0_def req_7_25_def)
  have b1: "refs_ok db1"
    by (simp add: refs_ok_def Pokemon_findByPk_def db1_def db0_def fav_7_25_def pikachu_def
        bulbasaur_def)
  have c1: "filter (\<lambda>f. user_id f = uid (req_user req_7_25)) (favourites db1) \<noteq> []"
    by (simp add: db1_def db0_def fav_7_25_def req_7_25_def)
  from list_not_found_iff_no_favourites [OF a0 b0] c0
  have r0: "\<exists>msg. readFavourite req_7_25 db0 = (Next (AppError msg 404), db0)" by simp
  from list_not_found_iff_no_favourites [OF a1 b1] c1
  have r1: "\<exists>body. readFavourite req_7_25 db1 = (Res 200 body, db1)" by simp
  from a0 b0 c0 r0 a1 b1 c1 r1 show ?thesis by simp
qed



text \<open>
  Claim C5. When no favourites row is stored for the pair of the acting user and
  \<^verbatim>\<open>pokemon_id\<close>, \<^verbatim>\<open>deleteFavourite\<close> ends in \<^verbatim>\<open>next\<close> with a 404 error and the database is
  the same before and after the call.
\<close>

theorem remove_absent_not_found:
  assumes "rows_for (uid (req_user req)) (params_pokemon_id req) (favourites d) = []"
  shows "\<exists>msg. deleteFavourite req d = (Next (AppError msg 404), d)"
proof -
  from assms have "Favourite_findOne d (uid (req_user req)) (params_pokemon_id req) = None"
    by (simp add: findOne_None_iff)
  then show ?thesis by (simp add: deleteFavourite_cases)
qed

theorem remove_absent_not_found_witness:
  "rows_for (uid (req_user req_7_1)) (params_pokemon_id req_7_1) (favourites db1) = []
   \<and> (\<exists>msg. deleteFavourite req_7_1 db1 = (Next (AppError msg 404), db1))"
proof -
  have h: "rows_for (uid (req_user req_7_1)) (params_pokemon_id req_7_1) (favourites db1) = []"
    by (simp add: rows_for_def db1_def db0_def req_7_1_def fav_7_25_def)
  from h remove_absent_not_found [OF h] show ?thesis by simp
qed

text \<open>
  Claim C6. When a favourites row is stored for the pair of the acting user and
  \<^verbatim>\<open>pokemon_id\<close>, \<^verbatim>\<open>deleteFavourite\<close> deletes exactly that row (one occurrence of the row
  leaves the table, nothing else in the database changes) and the response has status
  204 and no body.
\<close>

theorem remove_existing_row_204:
  assumes "rows_for (uid (req_user req)) (params_pokemon_id req) (favourites d) \<noteq> []"
  shows "\<lparr>user_id = uid (req_user req), pokemon_id = params_pokemon_id req\<rparr> \<in> set (favourites d)
       \<and> snd (deleteFavourite req d)
           = d\<lparr>favourites := remove1 \<lparr>user_id = uid (req_user req), pokemon_id = params_pokemon_id req\<rparr>
                                (favourites d)\<rparr>
       \<and> response_of (fst (deleteFavourite req d)) = Some \<lparr>resp_status = 204, resp_body = None\<rparr>"
proof -
  from assms obtain f
    where f: "Favourite_findOne d (uid (req_user req)) (params_pokemon_id req) = Some f"
    using findOne_None_iff [of d "uid (req_user req)" "params_pokemon_id req"] by auto
  from findOne_Some_row [OF f]
  have m: "f \<in> set (favourites d)"
    and e: "f = \<lparr>user_id = uid (req_user req), pokemon_id = params_pokemon_id req\<rparr>"
    by (simp_all add: favourite_row_eq)
  from m e f show ?thesis
    by (simp add: deleteFavourite_cases res_json_def)
qed

theorem remove_existing_row_204_witness:
  "rows_for (uid (req_user req_7_25)) (params_pokemon_id req_7_25) (favourites db2) \<noteq> []
   \<and> fav_7_25 \<in> set (favourites db2)
   \<and> snd (deleteFavourite req_7_25 db2) = db3
   \<and> response_of (fst (deleteFavourite req_7_25 db2)) = Some \<lparr>resp_status = 204, resp_body = None\<rparr>"
proof -
  have h: "rows_for (uid (req_user req_7_25)) (params_pokemon_id req_7_25) (favourites db2) \<noteq> []"
    by (simp add: rows_for_def db2_def db0_def req_7_25_def fav_7_25_def fav_7_1_def)
  have r: "\<lparr>user_id = uid (req_user req_7_25), pokemon_id = params_pokemon_id req_7_25\<rparr> = fav_7_25"
    by (simp add: fav_7_25_def req_7_25_def)
  have d: "db2\<lparr>favourites := remove1 fav_7_25 (favourites db2)\<rparr> = db3"
    by (simp add: db2_def db3_def db0_def fav_7_25_def fav_7_1_def)
  from remove_existing_row_204 [OF h] h show ?thesis
    by (simp only: r d) simp
qed

text \<open>
  Claim C8. For a user with a row in the users table, an existing catalog entry and a
  table with at most one row per pair: after add, remove and list for the same pair, the
  list either fails with the 404 error of an empty list or responds 200 with a list
  that has no entry with the identifier of the catalog entry; and when the user had no
  favourite other than this entry, the list fails with the 404 error.
\<close>

theorem add_remove_list_absent:
  assumes "user_exists d (uid (req_user req))"
    and "Pokemon_findByPk d (params_pokemon_id req) \<noteq> None"
    and "unique_pairs (favourites d)"
  shows "((\<exists>msg. fst (readFavourite req (snd (deleteFavourite req (snd (createFavourite req d)))))
                   = Next (AppError msg 404))
          \<or> (\<exists>view. fst (readFavourite req (snd (deleteFavourite req (snd (createFavourite req d)))))
                      = Res 200 (UserBody ''Success'' view)
                  \<and> params_pokemon_id req \<notin> v_id ` set (view_pokemons view)))
       \<and> (filter (\<lambda>f. user_id f = uid (req_user req) \<and> pokemon_id f \<noteq> params_pokemon_id req)
              (favourites d) = []
            \<longrightarrow> (\<exists>msg. fst (readFavourite req (snd (deleteFavourite req (snd (createFavourite req d)))))
                         = Next (AppError msg 404)))"
proof -
  let ?u = "uid (req_user req)" and ?p = "params_pokemon_id req"
  let ?d1 = "snd (createFavourite req d)"
  let ?d2 = "snd (deleteFavourite req ?d1)"
  have u1: "unique_pairs (favourites ?d1)"
    using assms(3) by (rule createFavourite_unique)
  then have gone: "rows_for ?u ?p (favourites ?d2) = []"
    by (rule deleteFavourite_rows_gone)
  have ex: "user_exists ?d2 ?u" using assms(1) by simp
  have absent: "?p \<notin> v_id ` set (joined_pokemons ?d2 ?u)"
  proof
    assume "?p \<in> v_id ` set (joined_pokemons ?d2 ?u)"
    then obtain x where "x \<in> set (joined_pokemons ?d2 ?u)" "v_id x = ?p" by auto
    with joined_ids [of x ?d2 ?u] gone show False by simp
  qed
  have first: "(\<exists>msg. fst (readFavourite req ?d2) = Next (AppError msg 404))
          \<or> (\<exists>view. fst (readFavourite req ?d2) = Res 200 (UserBody ''Success'' view)
                  \<and> ?p \<notin> v_id ` set (view_pokemons view))"
  proof (cases "joined_pokemons ?d2 ?u = []")
    case True
    with ex show ?thesis by (simp add: readFavourite_cases)
  next
    case False
    with ex absent show ?thesis by (simp add: readFavourite_cases)
  qed
  have second: "\<exists>msg. fst (readFavourite req ?d2) = Next (AppError msg 404)"
    if only: "filter (\<lambda>f. user_id f = ?u \<and> pokemon_id f \<noteq> ?p) (favourites d) = []"
  proof -
    have "filter (\<lambda>f. user_id f = ?u) (favourites ?d2) = []"
    proof (rule ccontr)
      assume "filter (\<lambda>f. user_id f = ?u) (favourites ?d2) \<noteq> []"
      then obtain f where f: "f \<in> set (favourites ?d2)" "user_id f = ?u"
        by (auto simp: filter_empty_conv)
      from f(1) deleteFavourite_subset [of req ?d1] have "f \<in> set (favourites ?d1)" by blast
      with createFavourite_subset [of req d]
      have "f = \<lparr>user_id = ?u, pokemon_id = ?p\<rparr> \<or> f \<in> set (favourites d)" by blast
      with only f(2) have "pokemon_id f = ?p"
        by (auto simp: filter_empty_conv)
      with f have "rows_for ?u ?p (favourites ?d2) \<noteq> []"
        by (auto simp: rows_for_def filter_empty_conv)
      with gone show False by simp
    qed
    then have "joined_pokemons ?d2 ?u = []" by (rule joined_empty)
    with ex show ?thesis by (simp add: readFavourite_cases)
  qed
  from first second show ?thesis by blast
qed

theorem add_remove_list_absent_witness:
  "user_exists db0 (uid (req_user req_7_25))
   \<and> Pokemon_findByPk db0 (params_pokemon_id req_7_25) \<noteq> None
   \<and> unique_pairs (favourites db0)
   \<and> filter (\<lambda>f. user_id f = uid (req_user req_7_25) \<and> pokemon_id f \<noteq> params_pokemon_id req_7_25)
        (favourites db0) = []
   \<and> (\<exists>msg. fst (readFavourite req_7_25 (snd (deleteFavourite req_7_25 (snd (createFavourite req_7_25 db0)))))
              = Next (AppError msg 404))
   \<and> user_exists db3 (uid (req_user req_7_25))
   \<and> Pokemon_findByPk db3 (params_pokemon_id req_7_25) \<noteq> None
   \<and> unique_pairs (favourites db3)
   \<and> fst (readFavourite req_7_25 (snd (deleteFavourite req_7_25 (snd (createFavourite req_7_25 db3)))))
       = Res 200 (UserBody ''Success'' \<lparr>view_pokemons = [\<lparr>v_id = 1, v_name = ''Bulbasaur''\<rparr>]\<rparr>)"
proof -
  have a0: "user_exists db0 (uid (req_user req_7_25))"
    by (simp add: user_exists_def db0_def req_7_25_def)
  have b0: "Pokemon_findByPk db0 (params_pokemon_id req_7_25) \<noteq> None"
    by (simp add: Pokemon_findByPk_def db0_def req_7_25_def pikachu_def bulbasaur_def)
  have c0: "unique_pairs (favourites db0)"
    by (simp add: unique_pairs_def db0_def)
  have o0: "filter (\<lambda>f. user_id f = uid (req_user req_7_25)
                \<and> pokemon_id f \<noteq> params_pokemon_id req_7_25) (favourites db0) = []"
    by (simp add: db0_def)
  from add_remove_list_absent [OF a0 b0 c0] o0
  have r0: "\<exists>msg. fst (readFavourite req_7_25 (snd (deleteFavourite req_7_25
                (snd (createFavourite req_7_25 db0))))) = Next (AppError msg 404)"
    by blast
  have a3: "user_exists db3 (uid (req_user req_7_25))"
    by (simp add: user_exists_def db3_def db0_def req_7_25_def)
  have b3: "Pokemon_findByPk db3 (params_pokemon_id req_7_25) \<noteq> None"
    by (simp add: Pokemon_findByPk_def db3_def db0_def req_7_25_def pikachu_def bulbasaur_def)
  have c3: "unique_pairs (favourites db3)"
    by (simp add: unique_pairs_def db3_def db0_def)
  have d1: "snd (createFavourite req_7_25 db3) = db2"
    by (simp add: createFavourite_cases Pokemon_findByPk_def rows_for_def db3_def db2_def db0_def
        req_7_25_def pikachu_def bulbasaur_def fav_7_1_def fav_7_25_def)
  have d2: "snd (deleteFavourite req_7_25 db2) = db3"
    by (simp add: deleteFavourite_cases Favourite_findOne_def db3_def db2_def db0_def
        req_7_25_def fav_7_1_def fav_7_25_def)
  have r3: "fst (readFavourite req_7_25 db3)
       = Res 200 (UserBody ''Success'' \<lparr>view_pokemons = [\<lparr>v_id = 1, v_name = ''Bulbasaur''\<rparr>]\<rparr>)"
    by (simp add: readFavourite_cases user_exists_def joined_pokemons_def Pokemon_findByPk_def
        List.map_filter_simps project_def db3_def db0_def req_7_25_def pikachu_def bulbasaur_def
        fav_7_1_def)
  from r3 have r3': "fst (readFavourite req_7_25 (snd (deleteFavourite req_7_25
                (snd (createFavourite req_7_25 db3)))))
       = Res 200 (UserBody ''Success'' \<lparr>view_pokemons = [\<lparr>v_id = 1, v_name = ''Bulbasaur''\<rparr>]\<rparr>)"
    by (simp only: d1 d2)
  from a0 b0 c0 o0 r0 a3 b3 c3 r3' show ?thesis by simp
qed


text \<open>
  Claim C10. \<^verbatim>\<open>readFavourite\<close> reads \<^verbatim>\<open>user.pokemons\<close> without testing the result of the
  user lookup. When the users table has no row for the acting user, the handler
  throws a TypeError (its promise rejects) and the database is untouched; when the row
  exists, the handler does not throw.
\<close>

theorem list_rejects_iff_user_absent:
  "(\<not> user_exists d (uid (req_user req)) \<longrightarrow> readFavourite req d = (Rejected TypeError, d))
   \<and> (user_exists d (uid (req_user req)) \<longrightarrow> (\<forall>e. fst (readFavourite req d) \<noteq> Rejected e))"
  by (simp add: readFavourite_cases)

theorem list_rejects_iff_user_absent_witness:
  "\<not> user_exists db1 (uid (req_user req_8_25))
   \<and> readFavourite req_8_25 db1 = (Rejected TypeError, db1)
   \<and> user_exists db1 (uid (req_user req_7_25))
   \<and> (\<forall>e. fst (readFavourite req_7_25 db1) \<noteq> Rejected e)"
proof -
  have a: "\<not> user_exists db1 (uid (req_user req_8_25))"
    by (simp add: user_exists_def db1_def db0_def req_8_25_def)
  have b: "user_exists db1 (uid (req_user req_7_25))"
    by (simp add: user_exists_def db1_def db0_def req_7_25_def)
  from a b list_rejects_iff_user_absent [of db1 req_8_25] list_rejects_iff_user_absent [of db1 req_7_25] show ?thesis by simp
qed

end
